theory Spec2Isabelle
  imports Main
begin

section \<open>Values, errors and text\<close>

text \<open>
  The module \<^verbatim>\<open>transcription_handler.py\<close> is embedded function by function.
  Python text (\<^verbatim>\<open>str\<close>) is a list of characters; one \<^typ>\<open>char\<close> stands for one
  code point, so the development covers texts whose code points are below 256.
  The standard output of a subprocess is kept as the bytes the tool wrote, one
  \<^typ>\<open>char\<close> for one byte, and \<^verbatim>\<open>stdout.decode()\<close> is a step of the model that can
  raise \<^verbatim>\<open>UnicodeDecodeError\<close>. The error output only feeds log messages and is taken
  as the text it decodes to.
  A value read by \<^verbatim>\<open>json.loads\<close> is a \<open>json\<close> term; JSON numbers with a fraction
  (Python floats) are outside the model.
\<close>

datatype json =
    JNull
  | JBool bool
  | JInt int
  | JStr string
  | JArr "json list"
  | JObj "(string \<times> json) list"

text \<open>The exceptions the module can raise or let through.\<close>

datatype error =
    ValueError string           \<comment> \<open>\<^verbatim>\<open>raise ValueError(message)\<close>\<close>
  | TypeError
  | AttributeError
  | FileNotFoundError string
  | UnicodeDecodeError

text \<open>Python's truth value of an object, as \<^verbatim>\<open>if not x\<close> tests it.\<close>

fun truthy :: "json \<Rightarrow> bool" where
  "truthy JNull = False"
| "truthy (JBool b) = b"
| "truthy (JInt i) = (i \<noteq> 0)"
| "truthy (JStr s) = (s \<noteq> [])"
| "truthy (JArr xs) = (xs \<noteq> [])"
| "truthy (JObj kvs) = (kvs \<noteq> [])"

text \<open>\<^verbatim>\<open>str(n)\<close> for an integer: decimal digits, with a minus sign when negative.\<close>

definition digit_char :: "nat \<Rightarrow> char" where
  "digit_char d = ''0123456789'' ! (d mod 10)"

fun str_nat :: "nat \<Rightarrow> string" where
  "str_nat n = (if n < 10 then [digit_char n] else str_nat (n div 10) @ [digit_char (n mod 10)])"

declare str_nat.simps [simp del]

definition str_int :: "int \<Rightarrow> string" where
  "str_int i = (if i < 0 then CHR ''-'' # str_nat (nat (- i)) else str_nat (nat i))"

text \<open>\<^verbatim>\<open>d.get(key)\<close> and \<^verbatim>\<open>d.get(key, default)\<close> on a dictionary kept as an association list.\<close>

definition dict_get :: "(string \<times> json) list \<Rightarrow> string \<Rightarrow> json" where
  "dict_get d k = (case map_of d k of None \<Rightarrow> JNull | Some v \<Rightarrow> v)"

definition dict_get_default :: "(string \<times> json) list \<Rightarrow> string \<Rightarrow> json \<Rightarrow> json" where
  "dict_get_default d k dflt = (case map_of d k of None \<Rightarrow> dflt | Some v \<Rightarrow> v)"

section \<open>format_duration\<close>

text \<open>
  \<^verbatim>\<open>
  def format_duration(duration):
      if not duration:
          return 'No duration available'
      hours, remainder = divmod(duration, 3600)
      minutes, seconds = divmod(remainder, 60)
      if hours:
          return f"{hours}h {minutes}m {seconds}s"
      else:
          return f"{minutes}m {seconds}s"
  \<close>
  \<^verbatim>\<open>divmod\<close> is floor division with the remainder, which is \<open>div\<close> and \<open>mod\<close> on
  \<^typ>\<open>int\<close> for the positive divisors used here. \<^verbatim>\<open>True\<close> counts as the integer 1;
  on a non-empty string, list or dictionary \<^verbatim>\<open>divmod\<close> raises \<^verbatim>\<open>TypeError\<close>.
\<close>

definition format_hms :: "int \<Rightarrow> string" where
  "format_hms duration =
     (let hours = duration div 3600; remainder = duration mod 3600;
          minutes = remainder div 60; seconds = remainder mod 60
      in if hours \<noteq> 0
         then str_int hours @ ''h '' @ str_int minutes @ ''m '' @ str_int seconds @ ''s''
         else str_int minutes @ ''m '' @ str_int seconds @ ''s'')"

definition format_duration :: "json \<Rightarrow> error + string" where
  "format_duration duration =
     (if \<not> truthy duration then Inr ''No duration available''
      else case duration of
             JInt i \<Rightarrow> Inr (format_hms i)
           | JBool b \<Rightarrow> Inr (format_hms 1)
           | _ \<Rightarrow> Inl TypeError)"

section \<open>Regular expressions\<close>

text \<open>
  The two patterns of the module are built from literals, character classes, a class
  repeated a fixed number of times, a greedy \<^verbatim>\<open>+\<close> on a class, sequence, alternation,
  a greedy \<^verbatim>\<open>?\<close> and capture groups. \<open>ms r (s, c)\<close> lists every way \<open>r\<close> can match
  a prefix of \<open>s\<close>, as the rest of the input with the captures, in the order in which
  the backtracking matcher of \<^verbatim>\<open>re\<close> tries them: the left alternative before the
  right one, the longer repetition before the shorter one, taking an optional part
  before skipping it. \<^verbatim>\<open>re.match\<close> returns the first.
\<close>

datatype cls =
    AnyChar               \<comment> \<open>\<^verbatim>\<open>.\<close>: any character but a newline\<close>
  | NoneOf string         \<comment> \<open>\<^verbatim>\<open>[^...]\<close>\<close>
  | NonSpace              \<comment> \<open>\<^verbatim>\<open>\S\<close>\<close>

datatype regex =
    Lit string
  | Rep nat cls           \<comment> \<open>\<^verbatim>\<open>cls{n}\<close>\<close>
  | Plus cls              \<comment> \<open>\<^verbatim>\<open>cls+\<close>\<close>
  | Seq regex regex
  | Alt regex regex
  | Opt regex             \<comment> \<open>\<^verbatim>\<open>r?\<close>\<close>
  | Grp nat regex         \<comment> \<open>capture group number n\<close>

definition is_space :: "char \<Rightarrow> bool" where
  "is_space ch = ((of_char ch :: nat) \<in> {9, 10, 11, 12, 13, 28, 29, 30, 31, 32, 133, 160})"

fun cls_ok :: "cls \<Rightarrow> char \<Rightarrow> bool" where
  "cls_ok AnyChar ch = (ch \<noteq> CHR 0x0A)"
| "cls_ok (NoneOf xs) ch = (ch \<notin> set xs)"
| "cls_ok NonSpace ch = (\<not> is_space ch)"

type_synonym caps = "nat \<rightharpoonup> string"

fun ms :: "regex \<Rightarrow> string \<times> caps \<Rightarrow> (string \<times> caps) list" where
  "ms (Lit l) (s, c) = (if take (length l) s = l then [(drop (length l) s, c)] else [])"
| "ms (Rep n k) (s, c) =
     (if n \<le> length s \<and> list_all (cls_ok k) (take n s) then [(drop n s, c)] else [])"
| "ms (Plus k) (s, c) =
     map (\<lambda>i. (drop i s, c)) (rev [1 ..< Suc (length (takeWhile (cls_ok k) s))])"
| "ms (Seq a b) st = concat (map (ms b) (ms a st))"
| "ms (Alt a b) st = ms a st @ ms b st"
| "ms (Opt a) st = ms a st @ [st]"
| "ms (Grp n a) (s, c) =
     map (\<lambda>(s', c'). (s', c'(n \<mapsto> take (length s - length s') s))) (ms a (s, c))"

text \<open>
  \<^verbatim>\<open>re.match(pattern, s)\<close>: the match is anchored at the start of \<open>s\<close> and need not
  reach its end. The result is the match object, kept as its captures with the whole
  match as group 0, or \<open>None\<close>.
\<close>

definition re_match :: "regex \<Rightarrow> string \<Rightarrow> caps option" where
  "re_match r s =
     (case ms r (s, Map.empty) of
        [] \<Rightarrow> None
      | (s', c) # _ \<Rightarrow> Some (c(0 \<mapsto> take (length s - length s') s)))"

text \<open>\<^verbatim>\<open>match.group(n)\<close>: the text of group n, \<open>None\<close> when the group took no part.\<close>

definition group :: "caps \<Rightarrow> nat \<Rightarrow> string option" where
  "group m n = m n"

fun seqs :: "regex list \<Rightarrow> regex" where
  "seqs [] = Lit []"
| "seqs [r] = r"
| "seqs (r # rs) = Seq r (seqs rs)"

text \<open>
  \<^verbatim>\<open>
  YOUTUBE_REGEX = (
      r'(https?://)?(www\.)?'
      '(youtube|youtu|youtube-nocookie)\.(com|be)/'
      '(watch\?v=|embed/|v/|.+\?v=)?([^&=%\?]{11})')
  \<close>
\<close>

definition YOUTUBE_REGEX :: regex where
  "YOUTUBE_REGEX = seqs
     [Opt (Grp 1 (seqs [Lit ''http'', Opt (Lit ''s''), Lit ''://''])),
      Opt (Grp 2 (Lit ''www.'')),
      Grp 3 (Alt (Lit ''youtube'') (Alt (Lit ''youtu'') (Lit ''youtube-nocookie''))),
      Lit ''.'',
      Grp 4 (Alt (Lit ''com'') (Lit ''be'')),
      Lit ''/'',
      Opt (Grp 5 (Alt (Lit ''watch?v='') (Alt (Lit ''embed/'') (Alt (Lit ''v/'')
                        (Seq (Plus AnyChar) (Lit ''?v='')))))),
      Grp 6 (Rep 11 (NoneOf ''&=%?''))]"

text \<open>
  \<^verbatim>\<open>
  def extract_youtube_video_id(url):
      match = re.match(YOUTUBE_REGEX, url)
      if not match:
          raise ValueError("Invalid YouTube URL")
      return match.group(6)
  \<close>
\<close>

definition extract_youtube_video_id :: "string \<Rightarrow> error + string option" where
  "extract_youtube_video_id url =
     (case re_match YOUTUBE_REGEX url of
        None \<Rightarrow> Inl (ValueError ''Invalid YouTube URL'')
      | Some m \<Rightarrow> Inr (group m 6))"

text \<open>
  \<^verbatim>\<open>re.findall(pattern, text)\<close> for a pattern with one capture group whose matches
  are never empty: the text is scanned from the left, a match at the current position
  contributes its group 1 and the scan goes on behind the match, otherwise the scan
  moves one character on. \<open>findall_skip r k s\<close> has \<open>k\<close> characters of a match still
  to step over.
\<close>

fun findall_skip :: "regex \<Rightarrow> nat \<Rightarrow> string \<Rightarrow> string list" where
  "findall_skip r k [] = []"
| "findall_skip r (Suc k) (x # xs) = findall_skip r k xs"
| "findall_skip r 0 (x # xs) =
     (case re_match r (x # xs) of
        None \<Rightarrow> findall_skip r 0 xs
      | Some m \<Rightarrow> (case m 1 of None \<Rightarrow> [] | Some g \<Rightarrow> g)
                  # findall_skip r (length (case m 0 of None \<Rightarrow> [] | Some g \<Rightarrow> g) - 1) xs)"

definition findall :: "regex \<Rightarrow> string \<Rightarrow> string list" where
  "findall r s = findall_skip r 0 s"

text \<open>The pattern \<^verbatim>\<open>r'(https?://\S+)'\<close> of \<^verbatim>\<open>process_url_message\<close>.\<close>

definition URL_REGEX :: regex where
  "URL_REGEX = Grp 1 (seqs [Lit ''http'', Opt (Lit ''s''), Lit ''://'', Plus NonSpace])"

section \<open>The world: files, subprocesses, chat and log\<close>

text \<open>
  The module acts on the file system, starts subprocesses, sends chat messages, sleeps
  and logs. The state is the file system (the size of every existing file, by path;
  directories are not modelled), the state of whatever the subprocesses stand for, and
  the trace of the effects so far, oldest first.
\<close>

datatype level = INFO | WARNING | ERROR

datatype event =
    Log level string
  | SendMessage int string        \<comment> \<open>\<^verbatim>\<open>bot.send_message(chat_id, text)\<close>\<close>
  | SendDocument int string       \<comment> \<open>\<^verbatim>\<open>bot.send_document(chat_id, open(path, 'rb'))\<close>\<close>
  | Spawn "string list"           \<comment> \<open>\<^verbatim>\<open>asyncio.create_subprocess_exec(*command)\<close>\<close>
  | Sleep int                     \<comment> \<open>\<^verbatim>\<open>asyncio.sleep(seconds)\<close>\<close>
  | Remove string                 \<comment> \<open>\<^verbatim>\<open>os.remove(path)\<close>\<close>

type_synonym files = "string \<rightharpoonup> nat"

record 'e world =
  fs :: files
  env :: 'e
  trace :: "event list"

text \<open>What \<^verbatim>\<open>process.communicate()\<close> and \<^verbatim>\<open>process.returncode\<close> give.\<close>

record proc =
  returncode :: int
  stdout :: string              \<comment> \<open>bytes\<close>
  stderr :: string              \<comment> \<open>decoded\<close>

text \<open>
  What lies outside the module is a parameter: \<open>exec\<close> runs a command on the state of
  the outside and the files and gives the finished process with both changed as the
  tool pleases; \<open>decode\<close> is \<^verbatim>\<open>bytes.decode\<close>, with \<open>None\<close> for a
  \<^verbatim>\<open>UnicodeDecodeError\<close>; \<open>loads\<close> is \<^verbatim>\<open>json.loads\<close>, with \<open>Inl\<close> of the message for a
  \<^verbatim>\<open>JSONDecodeError\<close>; \<open>repr\<close> is the text Python prints for a list or a dictionary.
  Starting a process and sending to the chat are taken not to raise.
\<close>

record 'e ext =
  exec :: "string list \<Rightarrow> 'e \<Rightarrow> files \<Rightarrow> proc \<times> 'e \<times> files"
  decode :: "string \<Rightarrow> string option"
  loads :: "string \<Rightarrow> string + json"
  repr :: "json \<Rightarrow> string"

definition log :: "level \<Rightarrow> string \<Rightarrow> 'e world \<Rightarrow> 'e world" where
  "log l msg w = w\<lparr>trace := trace w @ [Log l msg]\<rparr>"

definition send_message :: "int \<Rightarrow> string \<Rightarrow> 'e world \<Rightarrow> 'e world" where
  "send_message chat_id text w = w\<lparr>trace := trace w @ [SendMessage chat_id text]\<rparr>"

definition sleep :: "int \<Rightarrow> 'e world \<Rightarrow> 'e world" where
  "sleep seconds w = w\<lparr>trace := trace w @ [Sleep seconds]\<rparr>"

definition run_process :: "'e ext \<Rightarrow> string list \<Rightarrow> 'e world \<Rightarrow> proc \<times> 'e world" where
  "run_process X command w =
     (case exec X command (env w) (fs w) of
        (p, e', fs') \<Rightarrow> (p, \<lparr>fs = fs', env = e', trace = trace w @ [Spawn command]\<rparr>))"

text \<open>\<^verbatim>\<open>os.path.exists\<close>, \<^verbatim>\<open>os.path.getsize\<close>, \<^verbatim>\<open>os.remove\<close> and \<^verbatim>\<open>open(path, 'rb')\<close>.\<close>

definition path_exists :: "'e world \<Rightarrow> string \<Rightarrow> bool" where
  "path_exists w path = (fs w path \<noteq> None)"

definition getsize :: "'e world \<Rightarrow> string \<Rightarrow> error + nat" where
  "getsize w path = (case fs w path of None \<Rightarrow> Inl (FileNotFoundError path) | Some n \<Rightarrow> Inr n)"

definition os_remove :: "string \<Rightarrow> 'e world \<Rightarrow> error option \<times> 'e world" where
  "os_remove path w =
     (if path_exists w path
      then (None, w\<lparr>fs := (fs w)(path := None), trace := trace w @ [Remove path]\<rparr>)
      else (Some (FileNotFoundError path), w))"

definition send_document :: "int \<Rightarrow> string \<Rightarrow> 'e world \<Rightarrow> error option \<times> 'e world" where
  "send_document chat_id path w =
     (if path_exists w path
      then (None, w\<lparr>trace := trace w @ [SendDocument chat_id path]\<rparr>)
      else (Some (FileNotFoundError path), w))"

text \<open>
  \<^verbatim>\<open>os.path.basename\<close> and the first component of \<^verbatim>\<open>os.path.splitext\<close> (POSIX):
  the extension starts at the last dot behind the last slash, unless only dots
  come before it in the file name.
\<close>

definition rfind :: "char \<Rightarrow> string \<Rightarrow> int" where
  "rfind ch s =
     (if ch \<in> set s then int (length s) - 1 - int (length (takeWhile (\<lambda>x. x \<noteq> ch) (rev s)))
      else - 1)"

definition basename :: "string \<Rightarrow> string" where
  "basename p = drop (nat (rfind CHR ''/'' p + 1)) p"

definition splitext_root :: "string \<Rightarrow> string" where
  "splitext_root p =
     (let sepIndex = rfind CHR ''/'' p; dotIndex = rfind CHR ''.'' p
      in if dotIndex > sepIndex \<and>
            list_ex (\<lambda>ch. ch \<noteq> CHR ''.'')
              (take (nat (dotIndex - (sepIndex + 1))) (drop (nat (sepIndex + 1)) p))
         then take (nat dotIndex) p
         else p)"

text \<open>\<^verbatim>\<open>d[key] = value\<close> on a dictionary kept in insertion order.\<close>

fun dict_set :: "('k \<times> 'v) list \<Rightarrow> 'k \<Rightarrow> 'v \<Rightarrow> ('k \<times> 'v) list" where
  "dict_set [] k v = [(k, v)]"
| "dict_set ((k', v') # d) k v = (if k' = k then (k, v) # d else (k', v') # dict_set d k v)"

section \<open>download_audio and transcribe_audio\<close>

text \<open>
  \<^verbatim>\<open>
  async def download_audio(url, output_path):
      logger.info(f"Attempting to download audio from: {url}")
      command = ["yt-dlp", "--extract-audio", "--audio-format", "mp3", url, "-o", output_path]
      process = await asyncio.create_subprocess_exec(*command, ...)
      await process.communicate()
      if os.path.exists(output_path):
          logger.info(f"Audio downloaded successfully: {output_path}")
      else:
          logger.error(f"Failed to download audio: {output_path}")
  \<close>
\<close>

definition download_audio :: "'e ext \<Rightarrow> string \<Rightarrow> string \<Rightarrow> 'e world \<Rightarrow> 'e world" where
  "download_audio X url output_path w =
     (let w1 = log INFO (''Attempting to download audio from: '' @ url) w;
          command = [''yt-dlp'', ''--extract-audio'', ''--audio-format'', ''mp3'', url,
                     ''-o'', output_path];
          w2 = snd (run_process X command w1)
      in if path_exists w2 output_path
         then log INFO (''Audio downloaded successfully: '' @ output_path) w2
         else log ERROR (''Failed to download audio: '' @ output_path) w2)"

text \<open>
  The loop of \<^verbatim>\<open>transcribe_audio\<close> over \<^verbatim>\<open>transcript_files.items()\<close>:
  \<^verbatim>\<open>
      for fmt, path in transcript_files.items():
          if os.path.exists(path) and os.path.getsize(path) > 0:
              logger.info(f"Transcription file created: {path}")
              created_files[fmt] = path
          else:
              logger.warning(f"Expected transcription file not found or empty: {path}")
  \<close>
\<close>

fun verify_files ::
  "(string \<times> string) list \<Rightarrow> (string \<times> string) list \<Rightarrow> 'e world
     \<Rightarrow> (string \<times> string) list \<times> 'e world" where
  "verify_files [] created_files w = (created_files, w)"
| "verify_files ((fmt, path) # rest) created_files w =
     (if path_exists w path \<and> (case getsize w path of Inr n \<Rightarrow> n > 0 | Inl _ \<Rightarrow> False)
      then verify_files rest (dict_set created_files fmt path)
             (log INFO (''Transcription file created: '' @ path) w)
      else verify_files rest created_files
             (log WARNING (''Expected transcription file not found or empty: '' @ path) w))"

text \<open>
  \<^verbatim>\<open>
  async def transcribe_audio(audio_path, output_dir, youtube_url):
      logger.info(f"Starting transcription for: {audio_path}")
      transcription_command = ["whisper", audio_path, "--output_dir", output_dir]
      process = await asyncio.create_subprocess_exec(*transcription_command, ...)
      stdout, stderr = await process.communicate()
      if process.returncode != 0:
          logger.error(f"Whisper process failed with return code {process.returncode}")
          logger.error(f"Whisper STDERR: {stderr.decode()}")
      else:
          logger.info(f"Whisper transcription completed for: {audio_path}")
      base_filename = os.path.splitext(os.path.basename(audio_path))[0]
      transcript_files = {
          'txt': f"{output_dir}/{base_filename}.txt",
          'srt': f"{output_dir}/{base_filename}.srt",
          'vtt': f"{output_dir}/{base_filename}.vtt",
      }
      created_files = {}
      for fmt, path in transcript_files.items(): ...
      return created_files
  \<close>
\<close>

definition transcript_files :: "string \<Rightarrow> string \<Rightarrow> (string \<times> string) list" where
  "transcript_files audio_path output_dir =
     (let base_filename = splitext_root (basename audio_path)
      in [(''txt'', output_dir @ ''/'' @ base_filename @ ''.txt''),
          (''srt'', output_dir @ ''/'' @ base_filename @ ''.srt''),
          (''vtt'', output_dir @ ''/'' @ base_filename @ ''.vtt'')])"

definition transcribe_audio ::
  "'e ext \<Rightarrow> string \<Rightarrow> string \<Rightarrow> string \<Rightarrow> 'e world \<Rightarrow> (string \<times> string) list \<times> 'e world" where
  "transcribe_audio X audio_path output_dir youtube_url w =
     (let w1 = log INFO (''Starting transcription for: '' @ audio_path) w;
          transcription_command = [''whisper'', audio_path, ''--output_dir'', output_dir];
          (process, w2) = run_process X transcription_command w1;
          w3 = (if returncode process \<noteq> 0
                then log ERROR (''Whisper STDERR: '' @ stderr process)
                       (log ERROR (''Whisper process failed with return code ''
                                     @ str_int (returncode process)) w2)
                else log INFO (''Whisper transcription completed for: '' @ audio_path) w2)
      in verify_files (transcript_files audio_path output_dir) [] w3)"

section \<open>fetch_youtube_details\<close>

definition USE_SNIPPET_FOR_DESCRIPTION :: bool where
  "USE_SNIPPET_FOR_DESCRIPTION = False"

definition DESCRIPTION_MAX_LINES :: nat where
  "DESCRIPTION_MAX_LINES = 30"

text \<open>\<^verbatim>\<open>s.split(sep)\<close> for a separator of one character, and \<^verbatim>\<open>sep.join(lines)\<close>.\<close>

fun split_on :: "char \<Rightarrow> string \<Rightarrow> string list" where
  "split_on sep [] = [[]]"
| "split_on sep (x # xs) =
     (if x = sep then [] # split_on sep xs
      else case split_on sep xs of [] \<Rightarrow> [[x]] | y # ys \<Rightarrow> (x # y) # ys)"

fun join :: "string \<Rightarrow> string list \<Rightarrow> string" where
  "join sep [] = []"
| "join sep [x] = x"
| "join sep (x # y # ys) = x @ sep @ join sep (y # ys)"

text \<open>
  \<^verbatim>\<open>
  def get_description_snippet(description, max_lines=DESCRIPTION_MAX_LINES):
      lines = description.split('\n')
      snippet = '\n'.join(lines[:max_lines])
      return snippet
  \<close>
  Only text has \<^verbatim>\<open>split\<close>; on any other value the call raises \<^verbatim>\<open>AttributeError\<close>.
\<close>

definition get_description_snippet :: "json \<Rightarrow> nat \<Rightarrow> error + json" where
  "get_description_snippet description max_lines =
     (case description of
        JStr d \<Rightarrow> Inr (JStr (join [CHR 0x0A] (take max_lines (split_on (CHR 0x0A) d))))
      | _ \<Rightarrow> Inl AttributeError)"

text \<open>
  The body of the \<^verbatim>\<open>try\<close> behind \<^verbatim>\<open>json.loads\<close>: the record built from the
  parsed output. \<^verbatim>\<open>video_details.get\<close> exists on a dictionary only; on any other
  JSON value it raises \<^verbatim>\<open>AttributeError\<close>, which the \<^verbatim>\<open>except json.JSONDecodeError\<close>
  does not catch.
  \<^verbatim>\<open>
      duration_formatted = format_duration(video_details.get('duration'))
      if USE_SNIPPET_FOR_DESCRIPTION:
          description_text = get_description_snippet(video_details.get('description', 'No description available'))
      else:
          description_text = video_details.get('description', 'No description available')
      filtered_details = {
          'title': video_details.get('title', 'No title available'),
          'duration': duration_formatted,
          'channel': video_details.get('uploader', 'No channel information available'),
          'upload_date': video_details.get('upload_date', 'No upload date available'),
          'views': video_details.get('view_count', 'No views available'),
          'likes': video_details.get('like_count', 'No likes available'),
          'average_rating': video_details.get('average_rating', 'No rating available'),
          'comment_count': video_details.get('comment_count', 'No comment count available'),
          'channel_id': video_details.get('channel_id', 'No channel ID available'),
          'video_id': video_details.get('id', 'No video ID available'),
          'tags': video_details.get('tags', ['No tags available']),
          'description': description_text,
      }
  \<close>
\<close>

definition filtered_details :: "json \<Rightarrow> error + (string \<times> json) list" where
  "filtered_details video_details =
     (case video_details of
        JObj d \<Rightarrow>
          (case format_duration (dict_get d ''duration'') of
             Inl e \<Rightarrow> Inl e
           | Inr duration_formatted \<Rightarrow>
               (case (if USE_SNIPPET_FOR_DESCRIPTION
                      then get_description_snippet
                             (dict_get_default d ''description'' (JStr ''No description available''))
                             DESCRIPTION_MAX_LINES
                      else Inr (dict_get_default d ''description''
                                  (JStr ''No description available''))) of
                  Inl e \<Rightarrow> Inl e
                | Inr description_text \<Rightarrow> Inr
                    [(''title'', dict_get_default d ''title'' (JStr ''No title available'')),
                     (''duration'', JStr duration_formatted),
                     (''channel'', dict_get_default d ''uploader''
                        (JStr ''No channel information available'')),
                     (''upload_date'', dict_get_default d ''upload_date''
                        (JStr ''No upload date available'')),
                     (''views'', dict_get_default d ''view_count'' (JStr ''No views available'')),
                     (''likes'', dict_get_default d ''like_count'' (JStr ''No likes available'')),
                     (''average_rating'', dict_get_default d ''average_rating''
                        (JStr ''No rating available'')),
                     (''comment_count'', dict_get_default d ''comment_count''
                        (JStr ''No comment count available'')),
                     (''channel_id'', dict_get_default d ''channel_id''
                        (JStr ''No channel ID available'')),
                     (''video_id'', dict_get_default d ''id'' (JStr ''No video ID available'')),
                     (''tags'', dict_get_default d ''tags'' (JArr [JStr ''No tags available''])),
                     (''description'', description_text)]))
      | _ \<Rightarrow> Inl AttributeError)"

definition details_command :: "string \<Rightarrow> string list" where
  "details_command url =
     [''yt-dlp'', ''--user-agent'',
      ''Mozilla/5.0 (Windows NT 10.0; Win64; x64) AppleWebKit/537.36 (KHTML, like Gecko) Chrome/58.0.3029.110 Safari/537.3'',
      ''--dump-json'', url]"

text \<open>
  \<^verbatim>\<open>
  async def fetch_youtube_details(url, max_retries=3, base_delay=5):
      command = [...]
      for attempt in range(max_retries):
          process = await asyncio.create_subprocess_exec(*command, ...)
          stdout, stderr = await process.communicate()
          if stderr and process.returncode != 0:
              logger.warning(f"Attempt {attempt + 1} failed: {stderr.decode()}")
              if attempt < max_retries - 1:
                  wait_time = base_delay * (2 ** attempt)  # Exponential backoff
                  logger.info(f"Retrying after {wait_time} seconds...")
                  await asyncio.sleep(wait_time)
              else:
                  logger.error("All retry attempts failed.")
          else:
              try:
                  video_details = json.loads(stdout.decode())
                  ...
                  logger.info(f"Fetched YouTube details successfully for URL: {url}")
                  return filtered_details
              except json.JSONDecodeError as e:
                  logger.error(f"Error decoding JSON from yt-dlp output: {e}")
                  return None
      return None
  \<close>
  \<open>fetch_attempts\<close> is the \<^verbatim>\<open>for\<close> loop from the iteration \<open>attempt\<close> on. The result is
  \<open>Inr None\<close> for \<^verbatim>\<open>return None\<close>, \<open>Inr (Some d)\<close> for the record and \<open>Inl e\<close> for
  an exception that leaves the function: the handler catches \<^verbatim>\<open>json.JSONDecodeError\<close>
  only, so the \<^verbatim>\<open>UnicodeDecodeError\<close> of \<^verbatim>\<open>stdout.decode()\<close> and the errors of building
  the record leave it.
\<close>

function fetch_attempts ::
  "'e ext \<Rightarrow> string \<Rightarrow> int \<Rightarrow> int \<Rightarrow> nat \<Rightarrow> 'e world
     \<Rightarrow> (error + (string \<times> json) list option) \<times> 'e world" where
  "fetch_attempts X url max_retries base_delay attempt w =
     (if int attempt < max_retries then
        (case run_process X (details_command url) w of
           (process, w1) \<Rightarrow>
             if stderr process \<noteq> [] \<and> returncode process \<noteq> 0 then
               (let w2 = log WARNING (''Attempt '' @ str_int (int attempt + 1) @ '' failed: ''
                                        @ stderr process) w1
                in if int attempt < max_retries - 1 then
                     (let wait_time = base_delay * 2 ^ attempt;
                          w3 = log INFO (''Retrying after '' @ str_int wait_time @ '' seconds...'') w2;
                          w4 = sleep wait_time w3
                      in fetch_attempts X url max_retries base_delay (Suc attempt) w4)
                   else fetch_attempts X url max_retries base_delay (Suc attempt)
                          (log ERROR ''All retry attempts failed.'' w2))
             else
               (case decode X (stdout process) of
                  None \<Rightarrow> (Inl UnicodeDecodeError, w1)
                | Some text \<Rightarrow>
                    (case loads X text of
                       Inl e \<Rightarrow>
                         (Inr None,
                          log ERROR (''Error decoding JSON from yt-dlp output: '' @ e) w1)
                     | Inr video_details \<Rightarrow>
                         (case filtered_details video_details of
                            Inl e \<Rightarrow> (Inl e, w1)
                          | Inr d \<Rightarrow>
                              (Inr (Some d),
                               log INFO (''Fetched YouTube details successfully for URL: ''
                                           @ url) w1)))))
      else (Inr None, w))"
  by pat_completeness auto
termination
  by (relation "measure (\<lambda>(X, url, max_retries, base_delay, attempt, w). nat (max_retries - int attempt))")
     auto

declare fetch_attempts.simps [simp del]

definition fetch_youtube_details ::
  "'e ext \<Rightarrow> string \<Rightarrow> int \<Rightarrow> int \<Rightarrow> 'e world
     \<Rightarrow> (error + (string \<times> json) list option) \<times> 'e world" where
  "fetch_youtube_details X url max_retries base_delay w =
     fetch_attempts X url max_retries base_delay 0 w"

section \<open>process_url_message\<close>

text \<open>
  The text an f-string prints for a value: \<^verbatim>\<open>str(x)\<close>. \<open>str_opt\<close> is for the result of
  \<^verbatim>\<open>match.group\<close>, a text or \<^verbatim>\<open>None\<close>.
\<close>

definition py_str :: "'e ext \<Rightarrow> json \<Rightarrow> string" where
  "py_str X v =
     (case v of
        JStr s \<Rightarrow> s
      | JInt i \<Rightarrow> str_int i
      | JNull \<Rightarrow> ''None''
      | JBool b \<Rightarrow> (if b then ''True'' else ''False'')
      | _ \<Rightarrow> repr X v)"

definition str_opt :: "string option \<Rightarrow> string" where
  "str_opt v = (case v of None \<Rightarrow> ''None'' | Some s \<Rightarrow> s)"

text \<open>
  The body of the loop over the URLs, in two parts. The first part reaches from the
  test of the URL to the test that the audio file exists:
  \<^verbatim>\<open>
      if not re.match(YOUTUBE_REGEX, url):
          await bot.send_message(chat_id=..., text="Skipping non-YouTube URL.")
          continue
      await bot.send_message(chat_id=..., text="Processing YouTube URL...")
      video_id = extract_youtube_video_id(url)
      youtube_url = f"https://www.youtube.com/watch?v={video_id}"
      await bot.send_message(chat_id=..., text="Fetching YouTube video details...")
      details = await fetch_youtube_details(youtube_url)
      if not details:
          await bot.send_message(chat_id=..., text="Failed to fetch video details.")
          continue
      title = details.get('title', 'No title available')
      await bot.send_message(chat_id=..., text=f"Title: {title}\nDownloading audio for transcription...")
      audio_path = f"{video_id}.mp3"
      output_dir = "transcriptions"
      await download_audio(youtube_url, audio_path)
      if not os.path.exists(audio_path):
          await bot.send_message(chat_id=..., text="Audio file could not be downloaded.")
          continue
  \<close>
  Its result is \<open>Inl e\<close> for an exception, \<open>Inr None\<close> for \<^verbatim>\<open>continue\<close>, and
  \<open>Inr (Some (audio_path, youtube_url))\<close> when the audio file is there.
\<close>

definition prepare_audio ::
  "'e ext \<Rightarrow> int \<Rightarrow> string \<Rightarrow> 'e world \<Rightarrow> (error + (string \<times> string) option) \<times> 'e world" where
  "prepare_audio X chat_id url w =
     (if re_match YOUTUBE_REGEX url = None then
        (Inr None, send_message chat_id ''Skipping non-YouTube URL.'' w)
      else
        (let w1 = send_message chat_id ''Processing YouTube URL...'' w
         in case extract_youtube_video_id url of
              Inl e \<Rightarrow> (Inl e, w1)
            | Inr video_id \<Rightarrow>
                (let youtube_url = ''https://www.youtube.com/watch?v='' @ str_opt video_id;
                     w2 = send_message chat_id ''Fetching YouTube video details...'' w1
                 in case fetch_youtube_details X youtube_url 3 5 w2 of
                      (Inl e, w3) \<Rightarrow> (Inl e, w3)
                    | (Inr details, w3) \<Rightarrow>
                        (case (case details of None \<Rightarrow> [] | Some d \<Rightarrow> d) of
                           [] \<Rightarrow> (Inr None, send_message chat_id ''Failed to fetch video details.'' w3)
                         | kv # kvs \<Rightarrow>
                             (let title = dict_get_default (kv # kvs) ''title''
                                            (JStr ''No title available'');
                                  w4 = send_message chat_id
                                         (''Title: '' @ py_str X title @ [CHR 0x0A]
                                            @ ''Downloading audio for transcription...'') w3;
                                  audio_path = str_opt video_id @ ''.mp3'';
                                  w5 = download_audio X youtube_url audio_path w4
                              in if \<not> path_exists w5 audio_path
                                 then (Inr None,
                                       send_message chat_id ''Audio file could not be downloaded.'' w5)
                                 else (Inr (Some (audio_path, youtube_url)), w5))))))"

text \<open>
  The loop that sends the files:
  \<^verbatim>\<open>
      for fmt, path in transcription_paths.items():
          await bot.send_document(chat_id=..., document=open(path, 'rb'))
  \<close>
\<close>

fun send_documents ::
  "int \<Rightarrow> (string \<times> string) list \<Rightarrow> 'e world \<Rightarrow> error option \<times> 'e world" where
  "send_documents chat_id [] w = (None, w)"
| "send_documents chat_id ((fmt, path) # rest) w =
     (case send_document chat_id path w of
        (Some e, w') \<Rightarrow> (Some e, w')
      | (None, w') \<Rightarrow> send_documents chat_id rest w')"

text \<open>
  The second part of the body, from the transcription to the closing message:
  \<^verbatim>\<open>
      await bot.send_message(chat_id=..., text="Transcribing audio...")
      transcription_paths = await transcribe_audio(audio_path, output_dir, youtube_url)
      if not transcription_paths:
          await bot.send_message(chat_id=..., text="Failed to transcribe audio.")
          os.remove(audio_path)
          continue
      await bot.send_message(chat_id=..., text="Sending transcription files...")
      for fmt, path in transcription_paths.items(): ...
      os.remove(audio_path)  # Clean up the audio file after sending the files
      await bot.send_message(chat_id=..., text="There ya go, have a nice day! :-)")
  \<close>
  The result is the exception that left the body, if any.
\<close>

definition transcribe_and_send ::
  "'e ext \<Rightarrow> int \<Rightarrow> string \<Rightarrow> string \<Rightarrow> 'e world \<Rightarrow> error option \<times> 'e world" where
  "transcribe_and_send X chat_id audio_path youtube_url w =
     (let w1 = send_message chat_id ''Transcribing audio...'' w;
          (transcription_paths, w2) = transcribe_audio X audio_path ''transcriptions'' youtube_url w1
      in if transcription_paths = [] then
           os_remove audio_path (send_message chat_id ''Failed to transcribe audio.'' w2)
         else
           (case send_documents chat_id transcription_paths
                   (send_message chat_id ''Sending transcription files...'' w2) of
              (Some e, w3) \<Rightarrow> (Some e, w3)
            | (None, w3) \<Rightarrow>
                (case os_remove audio_path w3 of
                   (Some e, w4) \<Rightarrow> (Some e, w4)
                 | (None, w4) \<Rightarrow>
                     (None, send_message chat_id ''There ya go, have a nice day! :-)'' w4))))"

definition process_url :: "'e ext \<Rightarrow> int \<Rightarrow> string \<Rightarrow> 'e world \<Rightarrow> error option \<times> 'e world" where
  "process_url X chat_id url w =
     (case prepare_audio X chat_id url w of
        (Inl e, w') \<Rightarrow> (Some e, w')
      | (Inr None, w') \<Rightarrow> (None, w')
      | (Inr (Some (audio_path, youtube_url)), w') \<Rightarrow>
          transcribe_and_send X chat_id audio_path youtube_url w')"

text \<open>
  \<^verbatim>\<open>
  async def process_url_message(message_text, bot, update):
      urls = re.findall(r'(https?://\S+)', message_text)
      for url in urls:
          ...
  \<close>
  \<open>chat_id\<close> is \<^verbatim>\<open>update.effective_chat.id\<close>. An exception in the body ends the loop.
\<close>

fun process_urls :: "'e ext \<Rightarrow> int \<Rightarrow> string list \<Rightarrow> 'e world \<Rightarrow> error option \<times> 'e world" where
  "process_urls X chat_id [] w = (None, w)"
| "process_urls X chat_id (url # urls) w =
     (case process_url X chat_id url w of
        (Some e, w') \<Rightarrow> (Some e, w')
      | (None, w') \<Rightarrow> process_urls X chat_id urls w')"

definition process_url_message ::
  "'e ext \<Rightarrow> string \<Rightarrow> int \<Rightarrow> 'e world \<Rightarrow> error option \<times> 'e world" where
  "process_url_message X message_text chat_id w =
     process_urls X chat_id (findall URL_REGEX message_text) w"

section \<open>A concrete outside world\<close>

text \<open>
  Tools and a parser to run the functions on: the transcription tool exits with code 1
  and still writes the text and subtitle files of one video; the audio download writes
  its output file; the metadata call fails twice and then prints an empty JSON object.
  \<open>fixed_ext p\<close> is an outside whose every process ends as \<open>p\<close>, and \<open>retry_ext out\<close>
  one whose processes fail twice and then exit with code 0 printing \<open>out\<close>.
  The tools print ASCII or the byte \<^verbatim>\<open>0xFF\<close>, which no UTF-8 text contains:
  \<open>demo_decode\<close> gives ASCII bytes as they are and fails on anything else. \<open>demo_loads\<close>
  knows the few texts the tools print and rejects every other.
\<close>

definition demo_tools :: "string list \<Rightarrow> nat \<Rightarrow> files \<Rightarrow> proc \<times> nat \<times> files" where
  "demo_tools command n files =
     (if take 1 command = [''whisper''] then
        (\<lparr>returncode = 1, stdout = [], stderr = ''warning''\<rparr>, Suc n,
         if take 2 command = [''whisper'', ''dQw4w9WgXcQ.mp3'']
         then files(''transcriptions/dQw4w9WgXcQ.txt'' \<mapsto> 10,
                    ''transcriptions/dQw4w9WgXcQ.srt'' \<mapsto> 12)
         else files)
      else if take 2 command = [''yt-dlp'', ''--extract-audio''] then
        (\<lparr>returncode = 0, stdout = [], stderr = []\<rparr>, Suc n,
         case drop 6 command of [output_path] \<Rightarrow> files(output_path \<mapsto> 100) | _ \<Rightarrow> files)
      else if n < 2 then
        (\<lparr>returncode = 1, stdout = [], stderr = ''ERROR: busy''\<rparr>, Suc n, files)
      else (\<lparr>returncode = 0, stdout = ''{}'', stderr = []\<rparr>, Suc n, files))"

definition demo_decode :: "string \<Rightarrow> string option" where
  "demo_decode bs = (if list_all (\<lambda>b. (of_char b :: nat) < 128) bs then Some bs else None)"

definition demo_json :: string where
  \<open>demo_json = ''{"title": "Demo", "duration": 3661, "id": "dQw4w9WgXcQ"}''\<close>

definition demo_json_text_duration :: string where
  \<open>demo_json_text_duration = ''{"duration": "PT3M"}''\<close>

definition demo_loads :: "string \<Rightarrow> string + json" where
  "demo_loads s =
     (if s = ''{}'' then Inr (JObj [])
      else if s = ''[]'' then Inr (JArr [])
      else if s = demo_json_text_duration then Inr (JObj [(''duration'', JStr ''PT3M'')])
      else if s = demo_json
      then Inr (JObj [(''title'', JStr ''Demo''), (''duration'', JInt 3661),
                      (''id'', JStr ''dQw4w9WgXcQ'')])
      else Inl ''Expecting value: line 1 column 1 (char 0)'')"

definition demo_ext :: "nat ext" where
  "demo_ext = \<lparr>exec = demo_tools, decode = demo_decode, loads = demo_loads, repr = (\<lambda>v. [])\<rparr>"

definition fixed_ext :: "proc \<Rightarrow> nat ext" where
  "fixed_ext p =
     \<lparr>exec = (\<lambda>command n files. (p, Suc n, files)),
      decode = demo_decode, loads = demo_loads, repr = (\<lambda>v. [])\<rparr>"


definition demo_world :: "nat \<Rightarrow> nat world" where
  "demo_world n = \<lparr>fs = Map.empty, env = n, trace = []\<rparr>"

section \<open>Properties of format_duration\<close>

text \<open>
  Claim C2, as stated, asks for \<^verbatim>\<open>"0m 0s"\<close> at 0 seconds. The integer 0 is falsy,
  so the guard \<^verbatim>\<open>if not duration\<close> answers first.
\<close>

theorem format_duration_zero_not_0m_0s:
  "format_duration (JInt 0) = Inr ''No duration available'' \<and>
   format_duration (JInt 0) \<noteq> Inr ''0m 0s''"
  by (simp add: format_duration_def)

text \<open>
  Claim C2, amended: \<open>format_duration\<close> maps 0 seconds to \<^verbatim>\<open>"No duration available"\<close>,
  maps 3661 seconds to \<^verbatim>\<open>"1h 1m 1s"\<close>, and maps every absent or falsy duration to
  \<^verbatim>\<open>"No duration available"\<close>.
\<close>

theorem format_duration_examples:
  "format_duration (JInt 0) = Inr ''No duration available'' \<and>
   format_duration (JInt 3661) = Inr ''1h 1m 1s'' \<and>
   (\<forall>d. \<not> truthy d \<longrightarrow> format_duration d = Inr ''No duration available'')"
  by (simp add: format_duration_def format_hms_def str_int_def str_nat.simps digit_char_def)

theorem format_duration_examples_witness:
  "\<not> truthy JNull \<and> format_duration JNull = Inr ''No duration available''"
  using format_duration_examples by simp

section \<open>Properties of extract_youtube_video_id\<close>

lemma ms_Seq_snd: "x \<in> set (ms (Seq a b) st) \<Longrightarrow> \<exists>mid. x \<in> set (ms b mid)"
  by auto

lemma ms_Grp_Rep:
  "x \<in> set (ms (Grp n (Rep k cl)) st) \<Longrightarrow>
     \<exists>tok. snd x n = Some tok \<and> length tok = k \<and> list_all (cls_ok cl) tok"
  by (cases st) (auto split: if_splits)

lemma ms_YOUTUBE_REGEX_group6:
  "x \<in> set (ms YOUTUBE_REGEX st) \<Longrightarrow>
     \<exists>tok. snd x 6 = Some tok \<and> length tok = 11 \<and> list_all (cls_ok (NoneOf ''&=%?'')) tok"
  unfolding YOUTUBE_REGEX_def seqs.simps
  apply (drule ms_Seq_snd, erule exE)+
  apply (erule ms_Grp_Rep)
  done

lemma re_match_YOUTUBE_REGEX_group6:
  assumes "re_match YOUTUBE_REGEX url = Some m"
  shows "\<exists>tok. group m 6 = Some tok \<and> length tok = 11 \<and> list_all (cls_ok (NoneOf ''&=%?'')) tok"
proof -
  from assms obtain s' c rest where ms: "ms YOUTUBE_REGEX (url, Map.empty) = (s', c) # rest"
    and m: "m = c(0 \<mapsto> take (length url - length s') url)"
    by (auto simp: re_match_def split: list.splits)
  from ms have "(s', c) \<in> set (ms YOUTUBE_REGEX (url, Map.empty))" by simp
  from ms_YOUTUBE_REGEX_group6[OF this] show ?thesis by (simp add: m group_def)
qed

text \<open>
  Claim C5: for every URL that matches the YouTube pattern, \<open>extract_youtube_video_id\<close>
  returns the text of capture group 6 of the match, which has exactly 11 characters,
  none of them one of \<^verbatim>\<open>&=%?\<close>; for every URL that does not match it raises
  \<^verbatim>\<open>ValueError("Invalid YouTube URL")\<close>.
\<close>

theorem extract_youtube_video_id_spec:
  "(\<forall>m. re_match YOUTUBE_REGEX url = Some m \<longrightarrow>
      (\<exists>tok. group m 6 = Some tok \<and> length tok = 11 \<and> set tok \<inter> set ''&=%?'' = {} \<and>
             extract_youtube_video_id url = Inr (Some tok))) \<and>
   (re_match YOUTUBE_REGEX url = None \<longrightarrow>
      extract_youtube_video_id url = Inl (ValueError ''Invalid YouTube URL''))"
proof (intro conjI allI impI)
  fix m assume m: "re_match YOUTUBE_REGEX url = Some m"
  from re_match_YOUTUBE_REGEX_group6[OF m] obtain tok where
    tok: "group m 6 = Some tok" "length tok = 11" "list_all (cls_ok (NoneOf ''&=%?'')) tok"
    by blast
  from tok(3) have "set tok \<inter> set ''&=%?'' = {}"
    by (auto simp: list_all_iff)
  with tok m show "\<exists>tok. group m 6 = Some tok \<and> length tok = 11 \<and> set tok \<inter> set ''&=%?'' = {} \<and>
             extract_youtube_video_id url = Inr (Some tok)"
    by (simp add: extract_youtube_video_id_def)
next
  assume "re_match YOUTUBE_REGEX url = None"
  then show "extract_youtube_video_id url = Inl (ValueError ''Invalid YouTube URL'')"
    by (simp add: extract_youtube_video_id_def)
qed

theorem extract_youtube_video_id_spec_witness:
  "re_match YOUTUBE_REGEX ''https://youtu.be/dQw4w9WgXcQ'' \<noteq> None \<and>
   extract_youtube_video_id ''https://youtu.be/dQw4w9WgXcQ'' = Inr (Some ''dQw4w9WgXcQ'') \<and>
   re_match YOUTUBE_REGEX ''https://vimeo.com/12345'' = None \<and>
   extract_youtube_video_id ''https://vimeo.com/12345'' = Inl (ValueError ''Invalid YouTube URL'')"
proof -
  have a: "re_match YOUTUBE_REGEX ''https://youtu.be/dQw4w9WgXcQ'' \<noteq> None"
    by (simp add: re_match_def YOUTUBE_REGEX_def)
  have b: "re_match YOUTUBE_REGEX ''https://vimeo.com/12345'' = None"
    by (simp add: re_match_def YOUTUBE_REGEX_def)
  have c: "extract_youtube_video_id ''https://youtu.be/dQw4w9WgXcQ'' = Inr (Some ''dQw4w9WgXcQ'')"
    by (simp add: extract_youtube_video_id_def re_match_def YOUTUBE_REGEX_def group_def)
  from a b c extract_youtube_video_id_spec [of "''https://vimeo.com/12345''"]
    extract_youtube_video_id_spec [of "''https://youtu.be/dQw4w9WgXcQ''"]
  show ?thesis by simp
qed

section \<open>Properties of fetch_youtube_details\<close>








text \<open>
  Claim C3, as stated, speaks of every output that is not parseable as JSON. Output
  that is not valid UTF-8 is not: \<^verbatim>\<open>stdout.decode()\<close> raises \<^verbatim>\<open>UnicodeDecodeError\<close>
  inside the \<^verbatim>\<open>try\<close>, the handler is for \<^verbatim>\<open>json.JSONDecodeError\<close>, and the exception
  leaves \<open>fetch_youtube_details\<close> instead of a return of no details. Here the tool exits
  with code 0 and prints the byte \<^verbatim>\<open>0xFF\<close>.
\<close>

theorem fetch_undecodable_output_raises:
  "returncode \<lparr>returncode = 0, stdout = [CHR 0xFF], stderr = []\<rparr> = 0 \<and>
   fetch_youtube_details (fixed_ext \<lparr>returncode = 0, stdout = [CHR 0xFF], stderr = []\<rparr>)
       ''https://www.youtube.com/watch?v=dQw4w9WgXcQ'' 3 5 (demo_world 0) =
     (Inl UnicodeDecodeError,
      \<lparr>fs = Map.empty, env = 1,
       trace = [Spawn (details_command ''https://www.youtube.com/watch?v=dQw4w9WgXcQ'')]\<rparr>)"
  by (simp add: fetch_youtube_details_def fetch_attempts.simps[of _ _ _ _ 0] run_process_def
        fixed_ext_def demo_world_def demo_decode_def)

text \<open>
  Claim C3, amended: if an attempt reaches the parsing branch and its standard output
  decodes to a text that \<^verbatim>\<open>json.loads\<close> rejects with \<^verbatim>\<open>JSONDecodeError\<close>, the fetcher
  returns no details at once: after the process only the error is logged, so nothing
  sleeps and no further process is started, whatever \<open>max_retries\<close> is and whichever
  attempt it is; on the first attempt this is the whole run of \<open>fetch_youtube_details\<close>.
\<close>

theorem fetch_bad_json_fails_at_once:
  assumes "int attempt < max_retries"
    and "exec X (details_command url) (env w) (fs w) = (process, e', fs')"
    and "\<not> (stderr process \<noteq> [] \<and> returncode process \<noteq> 0)"
    and "decode X (stdout process) = Some decoded"
    and "loads X decoded = Inl msg"
  shows "fetch_attempts X url max_retries base_delay attempt w =
           (Inr None,
            \<lparr>fs = fs', env = e',
             trace = trace w @
               [Spawn (details_command url),
                Log ERROR (''Error decoding JSON from yt-dlp output: '' @ msg)]\<rparr>) \<and>
         (attempt = 0 \<longrightarrow>
            fetch_youtube_details X url max_retries base_delay w =
              (Inr None,
               \<lparr>fs = fs', env = e',
                trace = trace w @
                  [Spawn (details_command url),
                   Log ERROR (''Error decoding JSON from yt-dlp output: '' @ msg)]\<rparr>))"
proof -
  have r: "run_process X (details_command url) w =
             (process, \<lparr>fs = fs', env = e', trace = trace w @ [Spawn (details_command url)]\<rparr>)"
    using assms(2) by (simp add: run_process_def)
  have "fetch_attempts X url max_retries base_delay attempt w =
           (Inr None,
            \<lparr>fs = fs', env = e',
             trace = trace w @
               [Spawn (details_command url),
                Log ERROR (''Error decoding JSON from yt-dlp output: '' @ msg)]\<rparr>)"
    using assms(1,3,4,5) r by (subst fetch_attempts.simps) (auto simp add: log_def)
  then show ?thesis by (auto simp add: fetch_youtube_details_def)
qed

theorem fetch_bad_json_fails_at_once_witness:
  "fetch_youtube_details (fixed_ext \<lparr>returncode = 0, stdout = ''<html>'', stderr = []\<rparr>)
       ''u'' 3 5 (demo_world 0) =
     (Inr None,
      \<lparr>fs = Map.empty, env = 1,
       trace = [Spawn (details_command ''u''),
                Log ERROR ''Error decoding JSON from yt-dlp output: Expecting value: line 1 column 1 (char 0)'']\<rparr>)"
proof -
  let ?p = "\<lparr>returncode = 0, stdout = ''<html>'', stderr = []\<rparr>"
  have x: "exec (fixed_ext ?p) (details_command ''u'') (env (demo_world 0)) (fs (demo_world 0)) =
             (?p, 1, Map.empty)"
    by (simp add: fixed_ext_def demo_world_def)
  have n: "\<not> (stderr ?p \<noteq> [] \<and> returncode ?p \<noteq> 0)" by simp
  have d: "decode (fixed_ext ?p) (stdout ?p) = Some ''<html>''"
    by (simp add: fixed_ext_def demo_decode_def)
  have l: "loads (fixed_ext ?p) ''<html>'' = Inl ''Expecting value: line 1 column 1 (char 0)''"
    by (simp add: fixed_ext_def demo_loads_def demo_json_def demo_json_text_duration_def)
  from fetch_bad_json_fails_at_once[OF _ x n d l, where max_retries = 3 and base_delay = 5
         and attempt = 0]
  show ?thesis by (simp add: demo_world_def)
qed






section \<open>Properties of transcribe_audio\<close>

lemma verify_files_fs:
  "fs (snd (verify_files fl acc w)) = fs w \<and> env (snd (verify_files fl acc w)) = env w"
  by (induction fl acc w rule: verify_files.induct) (auto simp: log_def path_exists_def getsize_def)

lemma dict_set_new: "k \<notin> fst ` set d \<Longrightarrow> dict_set d k v = d @ [(k, v)]"
  by (induction d) auto

lemma file_check:
  "(path_exists w path \<and> (case getsize w path of Inr n \<Rightarrow> 0 < n | Inl e \<Rightarrow> False)) =
   (case fs w path of None \<Rightarrow> False | Some n \<Rightarrow> 0 < n)"
  by (simp add: path_exists_def getsize_def split: option.splits)

lemma verify_files_filter:
  "distinct (map fst fl) \<Longrightarrow> fst ` set fl \<inter> fst ` set acc = {} \<Longrightarrow>
   fst (verify_files fl acc w) =
     acc @ filter (\<lambda>(fmt, path). case fs w path of None \<Rightarrow> False | Some n \<Rightarrow> 0 < n) fl"
proof (induction fl acc w rule: verify_files.induct)
  case (1 created_files w)
  then show ?case by simp
next
  case (2 fmt path rest created_files w)
  show ?case
  proof (cases "case fs w path of None \<Rightarrow> False | Some n \<Rightarrow> 0 < n")
    case True
    from "2.prems" have new: "fmt \<notin> fst ` set created_files" by auto
    from "2.prems" have d: "distinct (map fst rest)"
      and i: "fst ` set rest \<inter> fst ` set (dict_set created_files fmt path) = {}"
      by (auto simp: dict_set_new[OF new])
    from True have c: "path_exists w path \<and> (case getsize w path of Inr n \<Rightarrow> 0 < n | Inl e \<Rightarrow> False)"
      by (simp add: file_check)
    have step: "verify_files ((fmt, path) # rest) created_files w =
        verify_files rest (dict_set created_files fmt path)
          (log INFO (''Transcription file created: '' @ path) w)"
      using c by (simp only: verify_files.simps simp_thms if_True)
    from "2.IH"(1)[OF c d i] True show ?thesis
      unfolding step by (simp add: dict_set_new[OF new] log_def)
  next
    case False
    from "2.prems" have d: "distinct (map fst rest)"
      and i: "fst ` set rest \<inter> fst ` set created_files = {}"
      by auto
    from False have c: "\<not> (path_exists w path \<and> (case getsize w path of Inr n \<Rightarrow> 0 < n | Inl e \<Rightarrow> False))"
      by (simp add: file_check)
    have step: "verify_files ((fmt, path) # rest) created_files w =
        verify_files rest created_files
          (log WARNING (''Expected transcription file not found or empty: '' @ path) w)"
      using c by (simp only: verify_files.simps simp_thms if_False)
    from "2.IH"(2)[OF c d i] False show ?thesis
      unfolding step by (simp add: log_def)
  qed
qed

lemma transcript_files_keys:
  "map fst (transcript_files audio_path output_dir) = [''txt'', ''srt'', ''vtt'']"
  by (simp add: transcript_files_def Let_def)

lemma transcribe_audio_result:
  assumes "exec X [''whisper'', audio_path, ''--output_dir'', output_dir] (env w) (fs w)
             = (process, e', fs')"
  shows "fst (transcribe_audio X audio_path output_dir youtube_url w) =
           filter (\<lambda>(fmt, path). case fs' path of None \<Rightarrow> False | Some n \<Rightarrow> 0 < n)
             (transcript_files audio_path output_dir)"
    and "fs (snd (transcribe_audio X audio_path output_dir youtube_url w)) = fs'"
    and "env (snd (transcribe_audio X audio_path output_dir youtube_url w)) = e'"
proof -
  show "fs (snd (transcribe_audio X audio_path output_dir youtube_url w)) = fs'"
    using assms by (simp add: transcribe_audio_def run_process_def Let_def verify_files_fs log_def)
  show "env (snd (transcribe_audio X audio_path output_dir youtube_url w)) = e'"
    using assms by (simp add: transcribe_audio_def run_process_def Let_def verify_files_fs log_def)
  have d: "distinct (map fst (transcript_files audio_path output_dir))"
    by (simp add: transcript_files_keys)
  show "fst (transcribe_audio X audio_path output_dir youtube_url w) =
           filter (\<lambda>(fmt, path). case fs' path of None \<Rightarrow> False | Some n \<Rightarrow> 0 < n)
             (transcript_files audio_path output_dir)"
    using assms
    by (simp add: transcribe_audio_def run_process_def Let_def verify_files_filter[OF d] log_def)
qed


lemma transcribe_audio_paths_exist:
  assumes "transcribe_audio X audio_path output_dir youtube_url w = (paths, w2)"
  shows "paths = filter (\<lambda>(fmt, path). case fs w2 path of None \<Rightarrow> False | Some n \<Rightarrow> 0 < n)
                   (transcript_files audio_path output_dir)"
proof -
  obtain process e' fs' where
    e: "exec X [''whisper'', audio_path, ''--output_dir'', output_dir] (env w) (fs w) = (process, e', fs')"
    by (rule prod_cases3)
  from transcribe_audio_result(1,2)[OF e, of youtube_url] assms show ?thesis by simp
qed

text \<open>
  Claim C6: whatever process the transcription tool ends as, so whatever its return
  code, \<open>transcribe_audio\<close> returns a mapping and does not raise; the mapping holds a
  format tag of \<^verbatim>\<open>txt\<close>, \<^verbatim>\<open>srt\<close>, \<^verbatim>\<open>vtt\<close> exactly when the file
  \<^verbatim>\<open><output_dir>/<stem>.<fmt>\<close> exists with a size above zero once the tool has run, and
  holds nothing else. In particular, when the text and the subtitle file are there with
  a size above zero and the \<^verbatim>\<open>vtt\<close> file is missing, its keys are exactly \<^verbatim>\<open>txt\<close> and
  \<^verbatim>\<open>srt\<close>.
\<close>

theorem transcribe_audio_file_set:
  assumes e: "exec X [''whisper'', audio_path, ''--output_dir'', output_dir] (env w) (fs w)
                = (process, e', fs')"
    and t: "transcribe_audio X audio_path output_dir youtube_url w = (created_files, w')"
    and s: "stem = splitext_root (basename audio_path)"
  shows "created_files =
           filter (\<lambda>(fmt, path). case fs' path of None \<Rightarrow> False | Some n \<Rightarrow> 0 < n)
             [(''txt'', output_dir @ ''/'' @ stem @ ''.txt''),
              (''srt'', output_dir @ ''/'' @ stem @ ''.srt''),
              (''vtt'', output_dir @ ''/'' @ stem @ ''.vtt'')] \<and>
         (\<forall>fmt \<in> {''txt'', ''srt'', ''vtt''}.
            (fmt \<in> set (map fst created_files)) =
            (\<exists>n. fs' (output_dir @ ''/'' @ stem @ ''.'' @ fmt) = Some n \<and> 0 < n)) \<and>
         set (map fst created_files) \<subseteq> {''txt'', ''srt'', ''vtt''} \<and>
         ((\<exists>n. fs' (output_dir @ ''/'' @ stem @ ''.txt'') = Some n \<and> 0 < n) \<and>
          (\<exists>n. fs' (output_dir @ ''/'' @ stem @ ''.srt'') = Some n \<and> 0 < n) \<and>
          fs' (output_dir @ ''/'' @ stem @ ''.vtt'') = None
          \<longrightarrow> map fst created_files = [''txt'', ''srt''])"
proof -
  have c: "created_files =
           filter (\<lambda>(fmt, path). case fs' path of None \<Rightarrow> False | Some n \<Rightarrow> 0 < n)
             [(''txt'', output_dir @ ''/'' @ stem @ ''.txt''),
              (''srt'', output_dir @ ''/'' @ stem @ ''.srt''),
              (''vtt'', output_dir @ ''/'' @ stem @ ''.vtt'')]"
    using transcribe_audio_result(1)[OF e, of youtube_url] t
    by (simp add: transcript_files_def Let_def s)
  have "\<forall>fmt \<in> {''txt'', ''srt'', ''vtt''}.
            (fmt \<in> set (map fst created_files)) =
            (\<exists>n. fs' (output_dir @ ''/'' @ stem @ ''.'' @ fmt) = Some n \<and> 0 < n)"
    unfolding c by (auto split: option.splits)
  moreover have "set (map fst created_files) \<subseteq> {''txt'', ''srt'', ''vtt''}"
    unfolding c by (auto split: option.splits)
  moreover have "(\<exists>n. fs' (output_dir @ ''/'' @ stem @ ''.txt'') = Some n \<and> 0 < n) \<and>
          (\<exists>n. fs' (output_dir @ ''/'' @ stem @ ''.srt'') = Some n \<and> 0 < n) \<and>
          fs' (output_dir @ ''/'' @ stem @ ''.vtt'') = None
          \<longrightarrow> map fst created_files = [''txt'', ''srt'']"
    unfolding c by auto
  ultimately show ?thesis using c by blast
qed

theorem transcribe_audio_file_set_witness:
  "returncode (fst (exec demo_ext [''whisper'', ''dQw4w9WgXcQ.mp3'', ''--output_dir'', ''transcriptions'']
                      0 Map.empty)) = 1 \<and>
   map fst (fst (transcribe_audio demo_ext ''dQw4w9WgXcQ.mp3'' ''transcriptions''
                   ''https://www.youtube.com/watch?v=dQw4w9WgXcQ'' (demo_world 0))) = [''txt'', ''srt'']"
proof -
  let ?fs' = "[''transcriptions/dQw4w9WgXcQ.txt'' \<mapsto> 10, ''transcriptions/dQw4w9WgXcQ.srt'' \<mapsto> 12] :: files"
  let ?p = "\<lparr>returncode = 1, stdout = [], stderr = ''warning''\<rparr>"
  have e: "exec demo_ext [''whisper'', ''dQw4w9WgXcQ.mp3'', ''--output_dir'', ''transcriptions'']
             (env (demo_world 0)) (fs (demo_world 0)) = (?p, 1, ?fs')"
    by (simp add: demo_ext_def demo_tools_def demo_world_def)
  have t: "transcribe_audio demo_ext ''dQw4w9WgXcQ.mp3'' ''transcriptions''
             ''https://www.youtube.com/watch?v=dQw4w9WgXcQ'' (demo_world 0) =
           (fst (transcribe_audio demo_ext ''dQw4w9WgXcQ.mp3'' ''transcriptions''
                   ''https://www.youtube.com/watch?v=dQw4w9WgXcQ'' (demo_world 0)),
            snd (transcribe_audio demo_ext ''dQw4w9WgXcQ.mp3'' ''transcriptions''
                   ''https://www.youtube.com/watch?v=dQw4w9WgXcQ'' (demo_world 0)))"
    by simp
  have s: "''dQw4w9WgXcQ'' = splitext_root (basename ''dQw4w9WgXcQ.mp3'')"
    by (simp add: splitext_root_def basename_def rfind_def)
  have r: "returncode (fst (exec demo_ext [''whisper'', ''dQw4w9WgXcQ.mp3'', ''--output_dir'', ''transcriptions'']
                      0 Map.empty)) = 1"
    by (simp add: demo_ext_def demo_tools_def)
  from transcribe_audio_file_set[OF e t s] r show ?thesis by simp
qed

section \<open>Properties of process_url_message\<close>

lemma send_documents_all:
  "(\<forall>(fmt, path) \<in> set paths. path_exists w path) \<Longrightarrow>
   send_documents chat_id paths w =
     (None, w\<lparr>trace := trace w @ map (\<lambda>(fmt, path). SendDocument chat_id path) paths\<rparr>)"
proof (induction paths arbitrary: w)
  case Nil
  then show ?case by simp
next
  case (Cons a paths)
  obtain fmt path where a: "a = (fmt, path)" by (cases a)
  let ?w = "w\<lparr>trace := trace w @ [SendDocument chat_id path]\<rparr>"
  from Cons.prems a have here: "path_exists w path" by simp
  from Cons.prems have "\<forall>(fmt, path) \<in> set paths. path_exists ?w path"
    by (auto simp: path_exists_def)
  from Cons.IH[OF this] here show ?case
    by (simp add: a send_document_def)
qed

lemma transcribe_and_send_result:
  assumes t: "transcribe_audio X audio_path ''transcriptions'' youtube_url
                (send_message chat_id ''Transcribing audio...'' w) = (paths, w2)"
  shows "transcribe_and_send X chat_id audio_path youtube_url w =
     (if path_exists w2 audio_path then
        (None,
         w2\<lparr>fs := (fs w2)(audio_path := None),
            trace := trace w2 @
              (if paths = []
               then [SendMessage chat_id ''Failed to transcribe audio.'', Remove audio_path]
               else SendMessage chat_id ''Sending transcription files...''
                    # map (\<lambda>(fmt, path). SendDocument chat_id path) paths
                    @ [Remove audio_path, SendMessage chat_id ''There ya go, have a nice day! :-)''])\<rparr>)
      else
        (Some (FileNotFoundError audio_path),
         w2\<lparr>trace := trace w2 @
              (if paths = []
               then [SendMessage chat_id ''Failed to transcribe audio.'']
               else SendMessage chat_id ''Sending transcription files...''
                    # map (\<lambda>(fmt, path). SendDocument chat_id path) paths)\<rparr>))"
proof (cases "paths = []")
  case True
  with t show ?thesis
    by (simp add: transcribe_and_send_def os_remove_def send_message_def path_exists_def)
next
  case False
  let ?w3 = "send_message chat_id ''Sending transcription files...'' w2"
  have "\<forall>(fmt, path) \<in> set paths. path_exists ?w3 path"
    using transcribe_audio_paths_exist[OF t]
    by (auto simp: path_exists_def send_message_def split: option.splits)
  from send_documents_all[OF this, of chat_id] False t show ?thesis
    by (simp add: transcribe_and_send_def os_remove_def send_message_def path_exists_def)
qed


lemma prepare_audio_Some:
  assumes "prepare_audio X chat_id url w = (Inr (Some (audio_path, youtube_url)), w1)"
  shows "path_exists w1 audio_path \<and> (\<exists>v. audio_path = v @ ''.mp3'')"
  using assms
  by (auto simp: prepare_audio_def Let_def
        split: if_splits sum.splits prod.splits option.splits list.splits)

lemma prepare_audio_skip:
  assumes "re_match YOUTUBE_REGEX url = None"
  shows "prepare_audio X chat_id url w =
           (Inr None, w\<lparr>trace := trace w @ [SendMessage chat_id ''Skipping non-YouTube URL.'']\<rparr>)"
  using assms by (simp add: prepare_audio_def send_message_def)

lemma filtered_details_error:
  "filtered_details v = Inl e \<Longrightarrow> e = TypeError \<or> e = AttributeError"
  by (auto simp: filtered_details_def format_duration_def get_description_snippet_def
        split: json.splits sum.splits if_splits)

lemma fetch_attempts_error:
  "fst (fetch_attempts X url max_retries base_delay attempt w) = Inl e \<Longrightarrow>
     e = TypeError \<or> e = AttributeError \<or> e = UnicodeDecodeError"
proof (induction X url max_retries base_delay attempt w rule: fetch_attempts.induct)
  case (1 X url max_retries base_delay attempt w)
  show ?case
  proof (cases "int attempt < max_retries")
    case False
    with "1.prems" show ?thesis by (simp add: fetch_attempts.simps)
  next
    case True
    obtain process w1 where r: "run_process X (details_command url) w = (process, w1)"
      by (cases "run_process X (details_command url) w")
    show ?thesis
    proof (cases "stderr process \<noteq> [] \<and> returncode process \<noteq> 0")
      case fail: True
      show ?thesis
      proof (cases "int attempt < max_retries - 1")
        case more: True
        from "1.IH"(1)[OF True r[symmetric] fail refl more refl refl refl] "1.prems" True r fail more
        show ?thesis
          by (subst (asm) fetch_attempts.simps) (simp add: Let_def)
      next
        case last: False
        from "1.IH"(2)[OF True r[symmetric] fail refl last] "1.prems" True r fail last
        show ?thesis
          by (subst (asm) fetch_attempts.simps) (simp add: Let_def)
      qed
    next
      case parse: False
      from "1.prems" True r parse show ?thesis
        by (subst (asm) fetch_attempts.simps)
           (auto split: sum.splits option.splits dest: filtered_details_error)
    qed
  qed
qed


lemma prepare_audio_error:
  assumes "prepare_audio X chat_id url w = (Inl e, w1)"
  shows "e = TypeError \<or> e = AttributeError \<or> e = UnicodeDecodeError"
proof -
  have f: "\<And>u a b w0 w3. fetch_youtube_details X u a b w0 = (Inl e, w3) \<Longrightarrow>
             e = TypeError \<or> e = AttributeError \<or> e = UnicodeDecodeError"
    using fetch_attempts_error unfolding fetch_youtube_details_def by (metis fst_conv)
  from assms show ?thesis
    by (auto simp: prepare_audio_def Let_def extract_youtube_video_id_def
          split: if_splits sum.splits prod.splits option.splits list.splits dest: f)
qed

lemma process_url_error:
  assumes "process_url X chat_id url w = (Some e, w')"
  shows "e = TypeError \<or> e = AttributeError \<or> e = UnicodeDecodeError \<or>
         (\<exists>path. e = FileNotFoundError path)"
proof (cases "prepare_audio X chat_id url w")
  case (Pair res w1)
  show ?thesis
  proof (cases res)
    case (Inl e1)
    with Pair assms prepare_audio_error[of X chat_id url w e1 w1] show ?thesis
      by (auto simp add: process_url_def)
  next
    case (Inr opt)
    show ?thesis
    proof (cases opt)
      case None
      with Inr Pair assms show ?thesis by (simp add: process_url_def)
    next
      case (Some ay)
      obtain audio_path youtube_url where ay: "ay = (audio_path, youtube_url)" by (cases ay)
      obtain paths w2 where t: "transcribe_audio X audio_path ''transcriptions'' youtube_url
                (send_message chat_id ''Transcribing audio...'' w1) = (paths, w2)"
        by (cases "transcribe_audio X audio_path ''transcriptions'' youtube_url
                (send_message chat_id ''Transcribing audio...'' w1)")
      from assms Pair Inr Some ay
      have "transcribe_and_send X chat_id audio_path youtube_url w1 = (Some e, w')"
        by (simp add: process_url_def)
      then show ?thesis
        unfolding transcribe_and_send_result[OF t] by (auto split: if_splits)
    qed
  qed
qed

lemma process_urls_error:
  "process_urls X chat_id urls w = (Some e, w') \<Longrightarrow>
     e = TypeError \<or> e = AttributeError \<or> e = UnicodeDecodeError \<or>
     (\<exists>path. e = FileNotFoundError path)"
proof (induction urls arbitrary: w)
  case Nil
  then show ?case by simp
next
  case (Cons url urls)
  show ?case
  proof (cases "process_url X chat_id url w")
    case (Pair r w1)
    show ?thesis
    proof (cases r)
      case None
      with Pair Cons.prems have "process_urls X chat_id urls w1 = (Some e, w')" by simp
      then show ?thesis by (rule Cons.IH)
    next
      case (Some e1)
      with Pair Cons.prems have "e1 = e" by simp
      with Some Pair process_url_error[of X chat_id url w e w1] show ?thesis by simp
    qed
  qed
qed

lemma transcript_path_not_mp3:
  assumes "(fmt, path) \<in> set (transcript_files audio_path output_dir)"
  shows "path \<noteq> v @ ''.mp3''"
proof
  assume "path = v @ ''.mp3''"
  then have "last path = CHR ''3''" by simp
  with assms show False
    by (auto simp: transcript_files_def Let_def)
qed

text \<open>The body of the loop on the concrete outside, for a video with and one without transcripts.\<close>

lemma demo_prepare_audio:
  "prepare_audio demo_ext 7 ''https://youtu.be/dQw4w9WgXcQ'' (demo_world 2) =
     (Inr (Some (''dQw4w9WgXcQ.mp3'', ''https://www.youtube.com/watch?v=dQw4w9WgXcQ'')),
      \<lparr>fs = [''dQw4w9WgXcQ.mp3'' \<mapsto> 100], env = 4,
       trace = [SendMessage 7 ''Processing YouTube URL...'',
                SendMessage 7 ''Fetching YouTube video details...'',
                Spawn (details_command ''https://www.youtube.com/watch?v=dQw4w9WgXcQ''),
                Log INFO ''Fetched YouTube details successfully for URL: https://www.youtube.com/watch?v=dQw4w9WgXcQ'',
                SendMessage 7 (''Title: No title available'' @ [CHR 0x0A]
                                 @ ''Downloading audio for transcription...''),
                Log INFO ''Attempting to download audio from: https://www.youtube.com/watch?v=dQw4w9WgXcQ'',
                Spawn [''yt-dlp'', ''--extract-audio'', ''--audio-format'', ''mp3'',
                       ''https://www.youtube.com/watch?v=dQw4w9WgXcQ'', ''-o'', ''dQw4w9WgXcQ.mp3''],
                Log INFO ''Audio downloaded successfully: dQw4w9WgXcQ.mp3'']\<rparr>)"
  by (simp add: prepare_audio_def re_match_def YOUTUBE_REGEX_def extract_youtube_video_id_def group_def
        str_opt_def fetch_youtube_details_def fetch_attempts.simps[of _ _ _ _ 0] run_process_def
        demo_ext_def demo_tools_def demo_decode_def demo_loads_def demo_json_def demo_json_text_duration_def demo_world_def
        details_command_def
        filtered_details_def dict_get_def dict_get_default_def format_duration_def
        USE_SNIPPET_FOR_DESCRIPTION_def py_str_def download_audio_def path_exists_def
        send_message_def log_def Let_def)

lemma silent_prepare_audio:
  "prepare_audio demo_ext 7 ''https://youtu.be/aaaaaaaaaaa'' (demo_world 2) =
     (Inr (Some (''aaaaaaaaaaa.mp3'', ''https://www.youtube.com/watch?v=aaaaaaaaaaa'')),
      \<lparr>fs = [''aaaaaaaaaaa.mp3'' \<mapsto> 100], env = 4,
       trace = [SendMessage 7 ''Processing YouTube URL...'',
                SendMessage 7 ''Fetching YouTube video details...'',
                Spawn (details_command ''https://www.youtube.com/watch?v=aaaaaaaaaaa''),
                Log INFO ''Fetched YouTube details successfully for URL: https://www.youtube.com/watch?v=aaaaaaaaaaa'',
                SendMessage 7 (''Title: No title available'' @ [CHR 0x0A]
                                 @ ''Downloading audio for transcription...''),
                Log INFO ''Attempting to download audio from: https://www.youtube.com/watch?v=aaaaaaaaaaa'',
                Spawn [''yt-dlp'', ''--extract-audio'', ''--audio-format'', ''mp3'',
                       ''https://www.youtube.com/watch?v=aaaaaaaaaaa'', ''-o'', ''aaaaaaaaaaa.mp3''],
                Log INFO ''Audio downloaded successfully: aaaaaaaaaaa.mp3'']\<rparr>)"
  by (simp add: prepare_audio_def re_match_def YOUTUBE_REGEX_def extract_youtube_video_id_def group_def
        str_opt_def fetch_youtube_details_def fetch_attempts.simps[of _ _ _ _ 0] run_process_def
        demo_ext_def demo_tools_def demo_decode_def demo_loads_def demo_json_def demo_json_text_duration_def demo_world_def
        details_command_def
        filtered_details_def dict_get_def dict_get_default_def format_duration_def
        USE_SNIPPET_FOR_DESCRIPTION_def py_str_def download_audio_def path_exists_def
        send_message_def log_def Let_def)

lemma demo_transcribe_audio:
  "transcribe_audio demo_ext ''dQw4w9WgXcQ.mp3'' ''transcriptions'' youtube_url
     \<lparr>fs = [''dQw4w9WgXcQ.mp3'' \<mapsto> 100], env = 4, trace = evs\<rparr> =
     ([(''txt'', ''transcriptions/dQw4w9WgXcQ.txt''), (''srt'', ''transcriptions/dQw4w9WgXcQ.srt'')],
      \<lparr>fs = [''dQw4w9WgXcQ.mp3'' \<mapsto> 100, ''transcriptions/dQw4w9WgXcQ.txt'' \<mapsto> 10,
             ''transcriptions/dQw4w9WgXcQ.srt'' \<mapsto> 12],
       env = 5,
       trace = evs @
         [Log INFO ''Starting transcription for: dQw4w9WgXcQ.mp3'',
          Spawn [''whisper'', ''dQw4w9WgXcQ.mp3'', ''--output_dir'', ''transcriptions''],
          Log ERROR ''Whisper process failed with return code 1'',
          Log ERROR ''Whisper STDERR: warning'',
          Log INFO ''Transcription file created: transcriptions/dQw4w9WgXcQ.txt'',
          Log INFO ''Transcription file created: transcriptions/dQw4w9WgXcQ.srt'',
          Log WARNING ''Expected transcription file not found or empty: transcriptions/dQw4w9WgXcQ.vtt'']\<rparr>)"
  by (simp add: transcribe_audio_def transcript_files_def splitext_root_def basename_def rfind_def
        run_process_def demo_ext_def demo_tools_def path_exists_def getsize_def log_def Let_def
        str_int_def str_nat.simps digit_char_def)

lemma silent_transcribe_audio:
  "transcribe_audio demo_ext ''aaaaaaaaaaa.mp3'' ''transcriptions'' youtube_url
     \<lparr>fs = [''aaaaaaaaaaa.mp3'' \<mapsto> 100], env = 4, trace = evs\<rparr> =
     ([],
      \<lparr>fs = [''aaaaaaaaaaa.mp3'' \<mapsto> 100], env = 5,
       trace = evs @
         [Log INFO ''Starting transcription for: aaaaaaaaaaa.mp3'',
          Spawn [''whisper'', ''aaaaaaaaaaa.mp3'', ''--output_dir'', ''transcriptions''],
          Log ERROR ''Whisper process failed with return code 1'',
          Log ERROR ''Whisper STDERR: warning'',
          Log WARNING ''Expected transcription file not found or empty: transcriptions/aaaaaaaaaaa.txt'',
          Log WARNING ''Expected transcription file not found or empty: transcriptions/aaaaaaaaaaa.srt'',
          Log WARNING ''Expected transcription file not found or empty: transcriptions/aaaaaaaaaaa.vtt'']\<rparr>)"
  by (simp add: transcribe_audio_def transcript_files_def splitext_root_def basename_def rfind_def
        run_process_def demo_ext_def demo_tools_def path_exists_def getsize_def log_def Let_def
        str_int_def str_nat.simps digit_char_def)

text \<open>
  Claim C7: for every URL whose audio download produced the audio file, the file is
  gone when the processing of that URL ends. If it is still there when the
  transcription has returned, the body ends without an exception and has removed the
  file, after the failure message when no transcript was produced and after the last
  document otherwise, and has changed no other file. Every transcript file that the
  transcription reported is another file than the audio file and is still there, with
  its size, at the end.
\<close>

theorem audio_file_removed:
  assumes p: "prepare_audio X chat_id url w = (Inr (Some (audio_path, youtube_url)), w1)"
    and t: "transcribe_audio X audio_path ''transcriptions'' youtube_url
              (send_message chat_id ''Transcribing audio...'' w1) = (transcription_paths, w2)"
    and r: "process_url X chat_id url w = (result, w')"
  shows "path_exists w1 audio_path \<and>
         \<not> path_exists w' audio_path \<and>
         (path_exists w2 audio_path \<longrightarrow>
            result = None \<and>
            fs w' = (fs w2)(audio_path := None) \<and>
            (transcription_paths = [] \<longrightarrow>
               trace w' = trace w2 @
                 [SendMessage chat_id ''Failed to transcribe audio.'', Remove audio_path]) \<and>
            (transcription_paths \<noteq> [] \<longrightarrow>
               trace w' = trace w2 @
                 SendMessage chat_id ''Sending transcription files...''
                 # map (\<lambda>(fmt, path). SendDocument chat_id path) transcription_paths
                 @ [Remove audio_path, SendMessage chat_id ''There ya go, have a nice day! :-)''])) \<and>
         (\<forall>(fmt, path) \<in> set transcription_paths.
            path \<noteq> audio_path \<and> fs w' path = fs w2 path \<and> (\<exists>n. fs w' path = Some n \<and> 0 < n))"
proof -
  from prepare_audio_Some[OF p] obtain v where
    a1: "path_exists w1 audio_path" and v: "audio_path = v @ ''.mp3''" by blast
  from p r have ts: "transcribe_and_send X chat_id audio_path youtube_url w1 = (result, w')"
    by (simp add: process_url_def)
  note res = ts[unfolded transcribe_and_send_result[OF t]]
  have gone: "\<not> path_exists w' audio_path"
    using res by (auto simp: path_exists_def split: if_splits)
  have del: "path_exists w2 audio_path \<longrightarrow>
            result = None \<and>
            fs w' = (fs w2)(audio_path := None) \<and>
            (transcription_paths = [] \<longrightarrow>
               trace w' = trace w2 @
                 [SendMessage chat_id ''Failed to transcribe audio.'', Remove audio_path]) \<and>
            (transcription_paths \<noteq> [] \<longrightarrow>
               trace w' = trace w2 @
                 SendMessage chat_id ''Sending transcription files...''
                 # map (\<lambda>(fmt, path). SendDocument chat_id path) transcription_paths
                 @ [Remove audio_path, SendMessage chat_id ''There ya go, have a nice day! :-)''])"
    using res by (auto split: if_splits)
  have keep: "\<forall>(fmt, path) \<in> set transcription_paths.
            path \<noteq> audio_path \<and> fs w' path = fs w2 path \<and> (\<exists>n. fs w' path = Some n \<and> 0 < n)"
  proof (clarify)
    fix fmt path assume m: "(fmt, path) \<in> set transcription_paths"
    from m transcribe_audio_paths_exist[OF t]
    have tf: "(fmt, path) \<in> set (transcript_files audio_path ''transcriptions'')"
      and ok: "\<exists>n. fs w2 path = Some n \<and> 0 < n"
      by (auto split: option.splits)
    from transcript_path_not_mp3[OF tf, of v] v have ne: "path \<noteq> audio_path" by simp
    from res ne have same: "fs w' path = fs w2 path"
      by (auto split: if_splits)
    from ne same ok
    show "path \<noteq> audio_path \<and> fs w' path = fs w2 path \<and> (\<exists>n. fs w' path = Some n \<and> 0 < n)"
      by simp
  qed
  from a1 gone del keep show ?thesis by blast
qed

theorem audio_file_removed_witness:
  "fst (process_url demo_ext 7 ''https://youtu.be/dQw4w9WgXcQ'' (demo_world 2)) = None \<and>
   fs (snd (process_url demo_ext 7 ''https://youtu.be/dQw4w9WgXcQ'' (demo_world 2)))
     ''dQw4w9WgXcQ.mp3'' = None \<and>
   fs (snd (process_url demo_ext 7 ''https://youtu.be/dQw4w9WgXcQ'' (demo_world 2)))
     ''transcriptions/dQw4w9WgXcQ.txt'' = Some 10 \<and>
   fs (snd (process_url demo_ext 7 ''https://youtu.be/dQw4w9WgXcQ'' (demo_world 2)))
     ''transcriptions/dQw4w9WgXcQ.srt'' = Some 12 \<and>
   fst (process_url demo_ext 7 ''https://youtu.be/aaaaaaaaaaa'' (demo_world 2)) = None \<and>
   fs (snd (process_url demo_ext 7 ''https://youtu.be/aaaaaaaaaaa'' (demo_world 2)))
     ''aaaaaaaaaaa.mp3'' = None"
proof -
  let ?r1 = "process_url demo_ext 7 ''https://youtu.be/dQw4w9WgXcQ'' (demo_world 2)"
  let ?r2 = "process_url demo_ext 7 ''https://youtu.be/aaaaaaaaaaa'' (demo_world 2)"
  have r1: "?r1 = (fst ?r1, snd ?r1)" and r2: "?r2 = (fst ?r2, snd ?r2)" by simp_all
  note t1 = demo_transcribe_audio[where youtube_url = "''https://www.youtube.com/watch?v=dQw4w9WgXcQ''"]
  note t2 = silent_transcribe_audio[where youtube_url = "''https://www.youtube.com/watch?v=aaaaaaaaaaa''"]
  from audio_file_removed[OF demo_prepare_audio _ r1, unfolded send_message_def, simplified, OF t1]
       audio_file_removed[OF silent_prepare_audio _ r2, unfolded send_message_def, simplified, OF t2]
  show ?thesis
    by (simp add: path_exists_def)
qed


text \<open>
  Claim C8: for every URL that does not match the YouTube pattern, the body of the
  loop sends the one message \<^verbatim>\<open>"Skipping non-YouTube URL."\<close> and does nothing else: the
  files and the outside are as before and no process is started; the loop goes on with
  the next URL.
\<close>

theorem skip_non_youtube_url:
  assumes "re_match YOUTUBE_REGEX url = None"
  shows "process_url X chat_id url w =
           (None, w\<lparr>trace := trace w @ [SendMessage chat_id ''Skipping non-YouTube URL.'']\<rparr>) \<and>
         process_urls X chat_id (url # urls) w =
           process_urls X chat_id urls
             (w\<lparr>trace := trace w @ [SendMessage chat_id ''Skipping non-YouTube URL.'']\<rparr>)"
  using prepare_audio_skip[OF assms, of X chat_id w]
  by (simp add: process_url_def)


theorem skip_non_youtube_url_witness:
  "re_match YOUTUBE_REGEX ''https://vimeo.com/12345'' = None \<and>
   process_url_message demo_ext ''https://vimeo.com/12345'' 7 (demo_world 0) =
     (None, \<lparr>fs = Map.empty, env = 0, trace = [SendMessage 7 ''Skipping non-YouTube URL.'']\<rparr>)"
proof -
  have m: "re_match YOUTUBE_REGEX ''https://vimeo.com/12345'' = None"
    by (simp add: re_match_def YOUTUBE_REGEX_def)
  have f: "findall URL_REGEX ''https://vimeo.com/12345'' = [''https://vimeo.com/12345'']"
    by (simp add: findall_def URL_REGEX_def re_match_def is_space_def)
  from skip_non_youtube_url[OF m, of demo_ext 7 "demo_world 0" "[]"] m f show ?thesis
    by (simp add: process_url_message_def demo_world_def)
qed

text \<open>
  Claim C9: when the transcription produces a non-empty file set, the files of the set
  are those of the formats \<^verbatim>\<open>txt\<close>, \<^verbatim>\<open>srt\<close>, \<^verbatim>\<open>vtt\<close>, in this order, whose file exists
  with a size above zero, and after the message \<^verbatim>\<open>"Sending transcription files..."\<close>
  every one of them is sent as a document, in that order, before anything else happens.
\<close>

theorem documents_sent_in_format_order:
  assumes p: "prepare_audio X chat_id url w = (Inr (Some (audio_path, youtube_url)), w1)"
    and t: "transcribe_audio X audio_path ''transcriptions'' youtube_url
              (send_message chat_id ''Transcribing audio...'' w1) = (transcription_paths, w2)"
    and ne: "transcription_paths \<noteq> []"
    and r: "process_url X chat_id url w = (result, w')"
  shows "transcription_paths =
           filter (\<lambda>(fmt, path). case fs w2 path of None \<Rightarrow> False | Some n \<Rightarrow> 0 < n)
             (transcript_files audio_path ''transcriptions'') \<and>
         map fst (transcript_files audio_path ''transcriptions'') = [''txt'', ''srt'', ''vtt''] \<and>
         (\<exists>rest. trace w' = trace w2 @
                    [SendMessage chat_id ''Sending transcription files...''] @
                    map (\<lambda>(fmt, path). SendDocument chat_id path) transcription_paths @ rest \<and>
                  (rest = [] \<or>
                   rest = [Remove audio_path,
                           SendMessage chat_id ''There ya go, have a nice day! :-)'']))"
proof -
  from p r have ts: "transcribe_and_send X chat_id audio_path youtube_url w1 = (result, w')"
    by (simp add: process_url_def)
  note res = ts[unfolded transcribe_and_send_result[OF t]]
  have "\<exists>rest. trace w' = trace w2 @
                    [SendMessage chat_id ''Sending transcription files...''] @
                    map (\<lambda>(fmt, path). SendDocument chat_id path) transcription_paths @ rest \<and>
                  (rest = [] \<or>
                   rest = [Remove audio_path,
                           SendMessage chat_id ''There ya go, have a nice day! :-)''])"
    using res ne by (auto split: if_splits)
  with transcribe_audio_paths_exist[OF t] transcript_files_keys show ?thesis by blast
qed

theorem documents_sent_in_format_order_witness:
  "filter (\<lambda>e. case e of SendDocument c path \<Rightarrow> True | _ \<Rightarrow> False)
     (trace (snd (process_url demo_ext 7 ''https://youtu.be/dQw4w9WgXcQ'' (demo_world 2)))) =
     [SendDocument 7 ''transcriptions/dQw4w9WgXcQ.txt'',
      SendDocument 7 ''transcriptions/dQw4w9WgXcQ.srt'']"
proof -
  let ?r1 = "process_url demo_ext 7 ''https://youtu.be/dQw4w9WgXcQ'' (demo_world 2)"
  have r1: "?r1 = (fst ?r1, snd ?r1)" by simp
  note t1 = demo_transcribe_audio[where youtube_url = "''https://www.youtube.com/watch?v=dQw4w9WgXcQ''"]
  from documents_sent_in_format_order[OF demo_prepare_audio _ _ r1, unfolded send_message_def,
         simplified, OF t1]
  show ?thesis
    by auto
qed

text \<open>
  Claim C10: \<open>extract_youtube_video_id\<close> is called behind the test that the URL matches
  \<open>YOUTUBE_REGEX\<close>, the pattern the extractor uses itself, so it returns a value there,
  and \<open>process_url_message\<close> never ends with its \<^verbatim>\<open>ValueError\<close>.
\<close>

theorem invalid_url_error_unreachable:
  "(re_match YOUTUBE_REGEX url \<noteq> None \<longrightarrow>
      (\<exists>video_id. extract_youtube_video_id url = Inr video_id)) \<and>
   fst (process_url_message X message_text chat_id w) \<noteq> Some (ValueError msg)"
proof
  show "re_match YOUTUBE_REGEX url \<noteq> None \<longrightarrow>
      (\<exists>video_id. extract_youtube_video_id url = Inr video_id)"
    by (auto simp: extract_youtube_video_id_def)
  show "fst (process_url_message X message_text chat_id w) \<noteq> Some (ValueError msg)"
  proof
    assume a: "fst (process_url_message X message_text chat_id w) = Some (ValueError msg)"
    obtain r w' where rw: "process_url_message X message_text chat_id w = (r, w')"
      by (cases "process_url_message X message_text chat_id w")
    with a have "process_urls X chat_id (findall URL_REGEX message_text) w = (Some (ValueError msg), w')"
      by (simp add: process_url_message_def)
    from process_urls_error[OF this] show False by simp
  qed
qed

theorem invalid_url_error_unreachable_witness:
  "re_match YOUTUBE_REGEX ''https://youtu.be/dQw4w9WgXcQ'' \<noteq> None \<and>
   extract_youtube_video_id ''https://youtu.be/dQw4w9WgXcQ'' \<noteq> Inl (ValueError ''Invalid YouTube URL'') \<and>
   fst (process_url_message demo_ext ''see https://vimeo.com/12345'' 7 (demo_world 0))
     \<noteq> Some (ValueError ''Invalid YouTube URL'')"
proof -
  have m: "re_match YOUTUBE_REGEX ''https://youtu.be/dQw4w9WgXcQ'' \<noteq> None"
    by (simp add: re_match_def YOUTUBE_REGEX_def)
  from invalid_url_error_unreachable[of "''https://youtu.be/dQw4w9WgXcQ''" demo_ext
         "''see https://vimeo.com/12345''" 7 "demo_world 0" "''Invalid YouTube URL''"] m
  show ?thesis by auto
qed

end
